theory Spec2Isabelle
  imports Main "HOL-Library.Finite_Map" "HOL-Library.Multiset"
begin

section \<open>Data model\<close>

text \<open>
  The rows of \<^verbatim>\<open>src/types/database.ts\<close> and of the migration
  \<^verbatim>\<open>001_events_and_chat.sql\<close>. The columns of type TIMESTAMPTZ that the server
  assigns and orders by are integers (an instant); the client only formats them for display.
  A nullable or optional string is a \<open>string option\<close>. \<open>Event\<close> extends
  \<open>CreateEventInput\<close> and \<open>ChatMessage\<close> extends \<open>CreateMessageInput\<close> by the
  server-assigned columns; the fields \<open>id\<close> and \<open>created_at\<close> carry a suffix, since
  both rows have them.
\<close>

type_synonym timestamp = int

record CreateEventInput =
  title :: string
  description :: "string option"
  date :: string
  location :: string

record Event = CreateEventInput +
  id_e :: string
  created_at_e :: timestamp
  updated_at :: timestamp

record CreateMessageInput =
  event_id :: string
  user_id :: string
  content :: string

record ChatMessage = CreateMessageInput +
  id_m :: string
  created_at_m :: timestamp

text \<open>The error object of the backend client: only its \<open>message\<close> is read.\<close>

datatype db_error = PostgrestError (message: string)

section \<open>The message-stream merge of the event-detail view\<close>

text \<open>
  The state updater handed to \<open>setMessages\<close> by the callback of
  \<open>subscribeToMessages\<close> (EventDetail, lines 101-107).
\<close>

definition onNewMessage :: "ChatMessage \<Rightarrow> ChatMessage list \<Rightarrow> ChatMessage list" where
  "onNewMessage newMessage prev =
     (if list_ex (\<lambda>msg. id_m msg = id_m newMessage) prev then prev
      else prev @ [newMessage])"

text \<open>A sequence of deliveries, in delivery order.\<close>

definition deliveries :: "ChatMessage list \<Rightarrow> ChatMessage list \<Rightarrow> ChatMessage list" where
  "deliveries ms prev = foldl (\<lambda>acc m. onNewMessage m acc) prev ms"

text \<open>
  What the specification asks of the merge, written on its own: the arrivals whose
  identifier was not seen before, in arrival order.
\<close>

fun first_seen :: "string list \<Rightarrow> ChatMessage list \<Rightarrow> ChatMessage list" where
  "first_seen seen [] = []"
| "first_seen seen (m # ms) =
     (if id_m m \<in> set seen then first_seen seen ms
      else m # first_seen (id_m m # seen) ms)"

section \<open>JavaScript helpers\<close>

text \<open>
  Strings are lists of characters with codes 0 to 255. \<open>String.prototype.trim\<close> removes
  white space and line terminators from both ends; in that range these are TAB, LF, VT, FF,
  CR, SPACE and NBSP.
\<close>

definition isWhiteSpace :: "char \<Rightarrow> bool" where
  "isWhiteSpace c \<longleftrightarrow>
     c \<in> set [CHR 0x09, CHR 0x0A, CHR 0x0B, CHR 0x0C, CHR 0x0D, CHR 0x20, CHR 0xA0]"

definition trim :: "string \<Rightarrow> string" where
  "trim s = rev (dropWhile isWhiteSpace (rev (dropWhile isWhiteSpace s)))"

text \<open>Truthiness of a \<open>string | null | undefined\<close>: the empty string is falsy.\<close>

fun truthy :: "string option \<Rightarrow> bool" where
  "truthy None = False"
| "truthy (Some s) = (s \<noteq> [])"

text \<open>The string in a \<open>string | null\<close> that was found truthy.\<close>

fun string_of :: "string option \<Rightarrow> string" where
  "string_of None = []"
| "string_of (Some s) = s"

text \<open>\<open>error.message || fallback\<close>.\<close>

definition message_or :: "db_error \<Rightarrow> string \<Rightarrow> string" where
  "message_or e fallback = (if message e = [] then fallback else message e)"

text \<open>
  What an awaited call of the backend client gives: the object \<open>{data, error}\<close>, or a
  rejected promise, which the caller's \<open>catch\<close> receives.
\<close>

datatype 'a reply = Reply (data: "'a option") (error: "db_error option") | Rejected

section \<open>The event-detail view\<close>

text \<open>
  What the view does to its collaborators, in the order it does it: notifications,
  navigation, console output, requests to the repositories and channel operations. A
  channel is named by its topic.
\<close>

datatype action =
    ToastError string
  | ToastSuccess string
  | Navigate string
  | ConsoleError string
  | CallGetSession
  | CallGetEventById string
  | CallGetMessagesByEvent string
  | CallCreateMessage "CreateMessageInput"
  | CallCreateEvent "CreateEventInput"
  | Subscribe string
  | Unsubscribe string

definition messages_topic :: "string \<Rightarrow> string" where
  "messages_topic eventId = ''messages:'' @ eventId"

definition presence_topic :: "string \<Rightarrow> string" where
  "presence_topic eventId = ''presence:'' @ eventId"

text \<open>
  The state of one mounted \<open>EventDetail\<close>: the route parameter \<open>id\<close>, the
  \<open>useState\<close> cells, the two channel variables of the current run of the realtime effect,
  and the trace of actions so far. Scrolling (\<open>messagesEndRef\<close>, the timers) touches none
  of these and is left out, as is the unused \<open>userEmail\<close> cell.
\<close>

record detail =
  param_id :: "string option"
  event :: "Event option"
  messages :: "ChatMessage list"
  loading :: bool
  sending :: bool
  messageText :: string
  currentUserId :: "string option"
  onlineUsersCount :: nat
  messageChannel :: "string option"
  presenceChannel :: "string option"
  trace :: "action list"

definition emit :: "action list \<Rightarrow> detail \<Rightarrow> detail" where
  "emit as s = s\<lparr>trace := trace s @ as\<rparr>"

definition initial :: "string option \<Rightarrow> detail" where
  "initial i = \<lparr>param_id = i, event = None, messages = [], loading = True, sending = False,
     messageText = [], currentUserId = None, onlineUsersCount = 0,
     messageChannel = None, presenceChannel = None, trace = []\<rparr>"

text \<open>The session object, as far as it is read: \<open>session?.user?.id\<close>.\<close>

record auth_user =
  auth_id :: string
  email :: "string option"

subsection \<open>The effects, up to their first await\<close>

definition getCurrentUser_effect :: "detail \<Rightarrow> detail" where
  "getCurrentUser_effect s = emit [CallGetSession] s"

definition fetchEvent_effect :: "detail \<Rightarrow> detail" where
  "fetchEvent_effect s =
     (case param_id s of
        None \<Rightarrow> s
      | Some i \<Rightarrow> if i = [] then s else emit [CallGetEventById i] s)"

definition fetchMessages_effect :: "detail \<Rightarrow> detail" where
  "fetchMessages_effect s =
     (case param_id s of
        None \<Rightarrow> s
      | Some i \<Rightarrow> if i = [] then s else emit [CallGetMessagesByEvent i] s)"

text \<open>
  The realtime effect (lines 92-123): the message channel is always opened, the presence
  channel only for a known user.
\<close>

definition realtime_effect :: "detail \<Rightarrow> detail" where
  "realtime_effect s =
     (case param_id s of
        None \<Rightarrow> s
      | Some i \<Rightarrow>
          if i = [] then s
          else
            let s1 = emit [Subscribe (messages_topic i)] (s\<lparr>messageChannel := Some (messages_topic i)\<rparr>)
            in if truthy (currentUserId s1)
               then emit [Subscribe (presence_topic i)] (s1\<lparr>presenceChannel := Some (presence_topic i)\<rparr>)
               else s1)"

text \<open>Its cleanup (lines 124-131).\<close>

definition realtime_cleanup :: "detail \<Rightarrow> detail" where
  "realtime_cleanup s =
     (let s1 = (case messageChannel s of None \<Rightarrow> s | Some c \<Rightarrow> emit [Unsubscribe c] s);
          s2 = (case presenceChannel s1 of None \<Rightarrow> s1 | Some c \<Rightarrow> emit [Unsubscribe c] s1)
      in s2\<lparr>messageChannel := None, presenceChannel := None\<rparr>)"

subsection \<open>Mounting, dependency changes, unmounting\<close>

text \<open>
  On mount the four effects run in source order, each up to its first await; so the
  channels are opened before any reply to a fetch can arrive.
\<close>

definition mount :: "string option \<Rightarrow> detail" where
  "mount i =
     realtime_effect (fetchMessages_effect (fetchEvent_effect (getCurrentUser_effect (initial i))))"

text \<open>
  When the route parameter changes, the same component instance is rendered again: the
  state cells keep their values, the cleanup of the realtime effect runs, then the effects
  that depend on \<open>id\<close> run again in source order.
\<close>

definition route_change :: "string option \<Rightarrow> detail \<Rightarrow> detail" where
  "route_change i s =
     (if param_id s = i then s
      else realtime_effect (fetchMessages_effect (fetchEvent_effect
             ((realtime_cleanup s)\<lparr>param_id := i\<rparr>))))"

definition unmount :: "detail \<Rightarrow> detail" where
  "unmount s = realtime_cleanup s"

subsection \<open>Continuations and callbacks\<close>

text \<open>
  \<open>getCurrentUser\<close> after its await (lines 35-39). A changed \<open>currentUserId\<close> is a
  changed dependency of the realtime effect: cleanup, then the effect again.
\<close>

definition getCurrentUser_resolved :: "auth_user option \<Rightarrow> detail \<Rightarrow> detail" where
  "getCurrentUser_resolved session s =
     (let uid = (case session of
                   None \<Rightarrow> None
                 | Some u \<Rightarrow> if auth_id u = [] then None else Some (auth_id u))
      in if currentUserId s = uid then s
         else realtime_effect ((realtime_cleanup s)\<lparr>currentUserId := uid\<rparr>))"

text \<open>\<open>fetchEvent\<close> after its await (lines 49-62).\<close>

fun fetchEvent_resolved :: "Event reply \<Rightarrow> detail \<Rightarrow> detail" where
  "fetchEvent_resolved (Reply d (Some e)) s =
     emit [ToastError (message_or e ''Error al cargar el evento''), Navigate ''/events/list''] s"
| "fetchEvent_resolved (Reply d None) s = s\<lparr>event := d\<rparr>"
| "fetchEvent_resolved Rejected s =
     emit [ConsoleError ''Error al cargar evento:'',
           ToastError ''Error inesperado al cargar el evento'', Navigate ''/events/list''] s"

text \<open>\<open>fetchMessages\<close> after its await (lines 73-86); \<open>data || []\<close>.\<close>

fun fetchMessages_resolved :: "ChatMessage list reply \<Rightarrow> detail \<Rightarrow> detail" where
  "fetchMessages_resolved (Reply d (Some e)) s =
     emit [ToastError (message_or e ''Error al cargar mensajes'')] s"
| "fetchMessages_resolved (Reply d None) s =
     s\<lparr>messages := (case d of None \<Rightarrow> [] | Some ms \<Rightarrow> ms), loading := False\<rparr>"
| "fetchMessages_resolved Rejected s =
     (emit [ConsoleError ''Error al cargar mensajes:'',
            ToastError ''Error inesperado al cargar mensajes''] s)\<lparr>loading := False\<rparr>"

text \<open>
  The callback given to \<open>subscribeToMessages\<close> (lines 100-112). It reads neither the
  route parameter nor the channel it was registered on.
\<close>

definition messageCallback :: "ChatMessage \<Rightarrow> detail \<Rightarrow> detail" where
  "messageCallback newMessage s = s\<lparr>messages := onNewMessage newMessage (messages s)\<rparr>"

text \<open>The callback given to \<open>subscribeToPresence\<close> (lines 116-118).\<close>

definition presenceCallback :: "nat \<Rightarrow> detail \<Rightarrow> detail" where
  "presenceCallback n s = s\<lparr>onlineUsersCount := n\<rparr>"

text \<open>
  \<open>handleSendMessage\<close> up to its await (lines 141-158), and after it (lines 160-171, with
  the \<open>finally\<close>). The sign-in text has an o with acute accent.
\<close>

definition must_sign_in :: string where
  "must_sign_in = ''Debes iniciar sesi'' @ [CHR 0xF3] @ ''n para enviar mensajes''"

definition handleSendMessage :: "detail \<Rightarrow> detail" where
  "handleSendMessage s =
     (if trim (messageText s) = [] \<or> \<not> truthy (currentUserId s) \<or> \<not> truthy (param_id s)
      then (if \<not> truthy (currentUserId s)
            then emit [ToastError must_sign_in, Navigate ''/login''] s
            else s)
      else emit [CallCreateMessage
                   \<lparr>event_id = string_of (param_id s), user_id = string_of (currentUserId s),
                    content = trim (messageText s)\<rparr>]
             (s\<lparr>sending := True\<rparr>))"

fun handleSendMessage_resolved :: "ChatMessage reply \<Rightarrow> detail \<Rightarrow> detail" where
  "handleSendMessage_resolved (Reply d (Some e)) s =
     (emit [ToastError (message_or e ''Error al enviar mensaje'')] s)\<lparr>sending := False\<rparr>"
| "handleSendMessage_resolved (Reply d None) s = s\<lparr>messageText := [], sending := False\<rparr>"
| "handleSendMessage_resolved Rejected s =
     (emit [ConsoleError ''Error al enviar mensaje:'',
            ToastError ''Error inesperado al enviar mensaje''] s)\<lparr>sending := False\<rparr>"

subsection \<open>The view as a reactive system\<close>

text \<open>
  Everything that can reach a mounted view between mount and unmount. A delivery names the
  topic of the channel whose callback fires. The handlers are applied as they are written,
  also where the rendered form would have its controls disabled.
\<close>

datatype input =
    SessionResolved "auth_user option"
  | EventResolved "Event reply"
  | MessagesResolved "ChatMessage list reply"
  | RemoteInsert string ChatMessage
  | PresenceChange string nat
  | Typed string
  | SubmitMessage
  | SendResolved "ChatMessage reply"
  | RouteChange "string option"

fun step :: "detail \<Rightarrow> input \<Rightarrow> detail" where
  "step s (SessionResolved session) = getCurrentUser_resolved session s"
| "step s (EventResolved r) = fetchEvent_resolved r s"
| "step s (MessagesResolved r) = fetchMessages_resolved r s"
| "step s (RemoteInsert topic m) = messageCallback m s"
| "step s (PresenceChange topic n) = presenceCallback n s"
| "step s (Typed text) = s\<lparr>messageText := text\<rparr>"
| "step s SubmitMessage = handleSendMessage s"
| "step s (SendResolved r) = handleSendMessage_resolved r s"
| "step s (RouteChange i) = route_change i s"

definition run :: "detail \<Rightarrow> input list \<Rightarrow> detail" where
  "run s ins = foldl step s ins"

text \<open>The channels that are open after a trace, oldest first.\<close>

fun channel_op :: "string list \<Rightarrow> action \<Rightarrow> string list" where
  "channel_op cs (Subscribe c) = cs @ [c]"
| "channel_op cs (Unsubscribe c) = remove1 c cs"
| "channel_op cs _ = cs"

definition open_channels :: "action list \<Rightarrow> string list" where
  "open_channels tr = foldl channel_op [] tr"

text \<open>What is rendered in the chat area (lines 228 and 317).\<close>

datatype screen = Skeleton | NoMessages | MessageList "ChatMessage list"

definition render :: "detail \<Rightarrow> screen" where
  "render s =
     (if loading s \<or> event s = None then Skeleton
      else if length (messages s) = 0 then NoMessages
      else MessageList (messages s))"

subsection \<open>Channels held and channels expected\<close>

text \<open>
  The channels the current run of the realtime effect holds; the channels a view of event
  \<open>i\<close> with user \<open>uid\<close> should have open; the repository calls the two fetch effects
  make; and the invariant that ties the trace to them.
\<close>

definition held :: "detail \<Rightarrow> string list" where
  "held s =
     (case messageChannel s of None \<Rightarrow> [] | Some c \<Rightarrow> [c])
     @ (case presenceChannel s of None \<Rightarrow> [] | Some c \<Rightarrow> [c])"

definition expected_channels :: "string option \<Rightarrow> string option \<Rightarrow> string list" where
  "expected_channels i uid =
     (if truthy i
      then messages_topic (string_of i) # (if truthy uid then [presence_topic (string_of i)] else [])
      else [])"

definition channels_ok :: "detail \<Rightarrow> bool" where
  "channels_ok s \<longleftrightarrow>
     open_channels (trace s) = held s \<and> held s = expected_channels (param_id s) (currentUserId s)"

definition fetch_calls :: "string option \<Rightarrow> action list" where
  "fetch_calls i =
     (if truthy i then [CallGetEventById (string_of i), CallGetMessagesByEvent (string_of i)]
      else [])"

text \<open>What a handler added to the trace.\<close>

definition new_actions :: "detail \<Rightarrow> detail \<Rightarrow> action list" where
  "new_actions s s' = drop (length (trace s)) (trace s')"

section \<open>The repositories and the store behind them\<close>

subsection \<open>Column types\<close>

text \<open>
  The identifier columns of the migration have type UUID. The server reads a value of that
  type as sixteen bytes of two hexadecimal digits each, with an optional hyphen after every
  second byte except the last, the whole optionally in braces; anything else is refused.
  It prints the value in lower case, grouped 8-4-4-4-12.
\<close>

definition isxdigit :: "char \<Rightarrow> bool" where
  "isxdigit c \<longleftrightarrow> c \<in> set ''0123456789abcdefABCDEF''"

definition tolower_hex :: "char \<Rightarrow> char" where
  "tolower_hex c =
     (if c = CHR ''A'' then CHR ''a'' else if c = CHR ''B'' then CHR ''b''
      else if c = CHR ''C'' then CHR ''c'' else if c = CHR ''D'' then CHR ''d''
      else if c = CHR ''E'' then CHR ''e'' else if c = CHR ''F'' then CHR ''f'' else c)"

text \<open>
  \<open>uuid_bytes n src\<close> reads the last \<open>n\<close> bytes; it gives their digits and what
  follows them.
\<close>

fun uuid_bytes :: "nat \<Rightarrow> string \<Rightarrow> (string \<times> string) option" where
  "uuid_bytes 0 src = Some ([], src)"
| "uuid_bytes (Suc n) (a # b # src) =
     (if isxdigit a \<and> isxdigit b
      then (case uuid_bytes n
                   (if even n \<and> 0 < n
                    then (case src of [] \<Rightarrow> src | c # r \<Rightarrow> if c = CHR ''-'' then r else src)
                    else src) of
              None \<Rightarrow> None
            | Some (ds, rest) \<Rightarrow> Some (tolower_hex a # tolower_hex b # ds, rest))
      else None)"
| "uuid_bytes (Suc n) src = None"

definition uuid_out :: "string \<Rightarrow> string" where
  "uuid_out ds =
     take 8 ds @ ''-'' @ take 4 (drop 8 ds) @ ''-'' @ take 4 (drop 12 ds) @ ''-''
     @ take 4 (drop 16 ds) @ ''-'' @ drop 20 ds"

definition uuid_in :: "string \<Rightarrow> string option" where
  "uuid_in src =
     (let braces = (case src of [] \<Rightarrow> False | c # r \<Rightarrow> c = CHR ''{'')
      in case uuid_bytes 16 (if braces then tl src else src) of
           None \<Rightarrow> None
         | Some (ds, rest) \<Rightarrow>
             if rest = (if braces then ''}'' else []) then Some (uuid_out ds) else None)"

text \<open>A value of type TEXT holds no character with code 0.\<close>

definition pg_text :: "string \<Rightarrow> bool" where
  "pg_text s \<longleftrightarrow> CHR 0x00 \<notin> set s"

fun pg_text_opt :: "string option \<Rightarrow> bool" where
  "pg_text_opt None = True"
| "pg_text_opt (Some s) = pg_text s"

text \<open>What the server answers to a value that is not of the column's type.\<close>

definition invalid_uuid :: "string \<Rightarrow> db_error" where
  "invalid_uuid v =
     PostgrestError (''invalid input syntax for type uuid: '' @ [CHR 0x22] @ v @ [CHR 0x22])"

definition invalid_timestamptz :: "string \<Rightarrow> db_error" where
  "invalid_timestamptz v =
     PostgrestError (''invalid input syntax for type timestamp with time zone: ''
       @ [CHR 0x22] @ v @ [CHR 0x22])"

definition invalid_text :: db_error where
  "invalid_text = PostgrestError ''unsupported Unicode escape sequence''"

subsection \<open>The store\<close>

text \<open>
  The two tables of the migration, the identifiers of \<open>auth.users\<close>, and what the server
  will assign at the next insert: \<open>gen_random_uuid()\<close> and \<open>now()\<close>. The identifiers
  in the tables are in the form the server prints. The column \<open>date\<close> has type
  TIMESTAMPTZ: \<open>timestamptz_in\<close> is the server's reading of a submitted string as an
  instant (\<open>None\<close> when it refuses it) and \<open>timestamptz_out\<close> its printing of an
  instant; a row of \<open>events\<close> carries the printed form, as the client receives it. The
  constraints the migration declares are modelled: primary keys, the foreign keys of
  \<open>chat_messages\<close>, and \<open>ON DELETE CASCADE\<close> from \<open>events\<close>. Any refusal of a
  request before it is evaluated (network, authorization) is \<open>fault\<close>.
\<close>

record backend =
  events :: "Event list"
  chat_messages :: "ChatMessage list"
  auth_users :: "string list"
  fault :: "db_error option"
  next_uuid :: string
  now :: timestamp
  timestamptz_in :: "string \<Rightarrow> timestamp option"
  timestamptz_out :: "timestamp \<Rightarrow> string"

definition no_single_row :: db_error where
  "no_single_row = PostgrestError ''JSON object requested, multiple (or no) rows returned''"

definition unique_violation :: db_error where
  "unique_violation = PostgrestError ''duplicate key value violates unique constraint''"


text \<open>\<open>getEventById\<close>: select, \<open>eq("id", id)\<close>, \<open>single()\<close>.\<close>

definition getEventById :: "backend \<Rightarrow> string \<Rightarrow> Event reply" where
  "getEventById b i =
     (case fault b of
        Some e \<Rightarrow> Reply None (Some e)
      | None \<Rightarrow>
          (case uuid_in i of
             None \<Rightarrow> Reply None (Some (invalid_uuid i))
           | Some u \<Rightarrow>
               (case filter (\<lambda>ev. id_e ev = u) (events b) of
                  [ev] \<Rightarrow> Reply (Some ev) None
                | _ \<Rightarrow> Reply None (Some no_single_row))))"

text \<open>
  \<open>getMessagesByEvent\<close>: select, \<open>eq("event_id", eventId)\<close>,
  \<open>order("created_at", {ascending: true})\<close>. Rows with the same instant keep their
  table order.
\<close>

definition getMessagesByEvent :: "backend \<Rightarrow> string \<Rightarrow> ChatMessage list reply" where
  "getMessagesByEvent b eventId =
     (case fault b of
        Some e \<Rightarrow> Reply None (Some e)
      | None \<Rightarrow>
          (case uuid_in eventId of
             None \<Rightarrow> Reply None (Some (invalid_uuid eventId))
           | Some u \<Rightarrow>
               Reply (Some (sort_key created_at_m
                              (filter (\<lambda>m. event_id m = u) (chat_messages b)))) None))"

text \<open>
  \<open>createEvent\<close>: insert, select, \<open>single()\<close>. The returned row has the date as the
  server prints it.
\<close>

definition createEvent :: "backend \<Rightarrow> CreateEventInput \<Rightarrow> backend \<times> Event reply" where
  "createEvent b inp =
     (case fault b of
        Some e \<Rightarrow> (b, Reply None (Some e))
      | None \<Rightarrow>
          if \<not> (pg_text (title inp) \<and> pg_text_opt (description inp) \<and> pg_text (location inp))
          then (b, Reply None (Some invalid_text))
          else
            (case timestamptz_in b (date inp) of
               None \<Rightarrow> (b, Reply None (Some (invalid_timestamptz (date inp))))
             | Some t \<Rightarrow>
                 if next_uuid b \<in> set (map id_e (events b))
                 then (b, Reply None (Some unique_violation))
                 else
                   let row = \<lparr>title = title inp, description = description inp,
                              date = timestamptz_out b t, location = location inp,
                              id_e = next_uuid b, created_at_e = now b, updated_at = now b\<rparr>
                   in (b\<lparr>events := events b @ [row]\<rparr>, Reply (Some row) None)))"


text \<open>
  \<open>deleteEvent\<close>: delete, \<open>eq("id", id)\<close>; the rows of \<open>chat_messages\<close> that
  reference the event go with it (\<open>ON DELETE CASCADE\<close>, line 18 of the migration).
\<close>

definition deleteEvent :: "backend \<Rightarrow> string \<Rightarrow> backend \<times> db_error option" where
  "deleteEvent b i =
     (case fault b of
        Some e \<Rightarrow> (b, Some e)
      | None \<Rightarrow>
          (case uuid_in i of
             None \<Rightarrow> (b, Some (invalid_uuid i))
           | Some u \<Rightarrow>
               (b\<lparr>events := filter (\<lambda>ev. id_e ev \<noteq> u) (events b),
                  chat_messages := filter (\<lambda>m. event_id m \<noteq> u) (chat_messages b)\<rparr>, None)))"

section \<open>Presence\<close>

text \<open>
  The value of \<open>channel.presenceState()\<close>: an object keyed by presence key, each key
  with the payloads tracked under it.
\<close>

record presence =
  tracked_user :: string
  online_at :: string

type_synonym presence_state = "(string, presence list) fmap"

datatype presence_event = Sync | Join | Leave

text \<open>\<open>Object.keys(state).length\<close>.\<close>

definition key_count :: "presence_state \<Rightarrow> nat" where
  "key_count state = fcard (fmdom state)"

text \<open>
  The three listeners registered by \<open>subscribeToPresence\<close> (lines 96-110), applied to
  the channel's current state and the caller's callback.
\<close>

fun on_presence :: "presence_event \<Rightarrow> presence_state \<Rightarrow> (nat \<Rightarrow> 'a) \<Rightarrow> 'a" where
  "on_presence Sync state onPresenceChange = onPresenceChange (key_count state)"
| "on_presence Join state onPresenceChange = onPresenceChange (key_count state)"
| "on_presence Leave state onPresenceChange = onPresenceChange (key_count state)"

text \<open>
  Modelled from the spec: what \<open>channel.track\<close> does to the presence state, which the
  realtime service decides and the repository does not contain. Section 9 gives the
  aggregate as a mapping from principal identifier to a small record, with the count its
  size; tracking announces a payload under the channel's presence key.
\<close>

definition track :: "string \<Rightarrow> presence \<Rightarrow> presence_state \<Rightarrow> presence_state" where
  "track k p state =
     fmupd k (p # (case fmlookup state k of None \<Rightarrow> [] | Some ps \<Rightarrow> ps)) state"

text \<open>
  Modelled from the spec: what a member's leaving does to the presence state, which the
  realtime service decides as well. The member's key is removed from the mapping.
\<close>

definition leave :: "string \<Rightarrow> presence_state \<Rightarrow> presence_state" where
  "leave k state = fmdrop k state"

text \<open>
  The status callback of \<open>subscribeToPresence\<close> (lines 111-118): the local user is
  tracked under its own identifier once the channel is subscribed. The second argument is
  \<open>new Date().toISOString()\<close> at that moment.
\<close>

definition on_status :: "string \<Rightarrow> string \<Rightarrow> string \<Rightarrow> presence_state \<Rightarrow> presence_state" where
  "on_status status userId t state =
     (if status = ''SUBSCRIBED''
      then track userId \<lparr>tracked_user = userId, online_at = t\<rparr> state
      else state)"

section \<open>The create-event form\<close>

datatype form_field = Title | Description | Date | Location

text \<open>The messages of \<open>eventSchema\<close>; i and o with acute accent are written by code.\<close>

definition title_required :: string where
  "title_required = ''El t'' @ [CHR 0xED] @ ''tulo es requerido''"

definition title_too_long :: string where
  "title_too_long = ''El t'' @ [CHR 0xED] @ ''tulo es demasiado largo''"

definition description_too_long :: string where
  "description_too_long = ''La descripci'' @ [CHR 0xF3] @ ''n es demasiado larga''"

definition date_required :: string where
  "date_required = ''La fecha es requerida''"

definition location_required :: string where
  "location_required = ''La ubicaci'' @ [CHR 0xF3] @ ''n es requerida''"

definition location_too_long :: string where
  "location_too_long = ''La ubicaci'' @ [CHR 0xF3] @ ''n es demasiado larga''"

text \<open>
  \<open>eventSchema\<close> (lines 22-27) applied to the form values: the issues found, field by
  field. The form values have the shape of \<open>CreateEventInput\<close>.
\<close>

definition eventSchema :: "CreateEventInput \<Rightarrow> (form_field \<times> string) list" where
  "eventSchema values =
     (if length (title values) < 1 then [(Title, title_required)]
      else if length (title values) > 200 then [(Title, title_too_long)] else [])
     @ (case description values of
          None \<Rightarrow> []
        | Some d \<Rightarrow> if length d > 1000 then [(Description, description_too_long)] else [])
     @ (if length (date values) < 1 then [(Date, date_required)] else [])
     @ (if length (location values) < 1 then [(Location, location_required)]
        else if length (location values) > 200 then [(Location, location_too_long)] else [])"

text \<open>
  \<open>onSubmit\<close> up to its await (lines 44-53). The argument \<open>toISO\<close> stands for
  \<open>new Date(x).toISOString()\<close>, which throws on a string that is no date (\<open>None\<close>);
  the \<open>catch\<close> then reports it.
\<close>

definition onSubmit :: "(string \<Rightarrow> string option) \<Rightarrow> CreateEventInput \<Rightarrow> action list" where
  "onSubmit toISO values =
     (case toISO (date values) of
        None \<Rightarrow> [ConsoleError ''Error al crear evento:'',
                 ToastError ''Error inesperado al crear el evento'']
      | Some dateValue \<Rightarrow>
          [CallCreateEvent
             \<lparr>title = title values,
              description = (if truthy (description values) then description values else None),
              date = dateValue,
              location = location values\<rparr>])"

text \<open>\<open>onSubmit\<close> after its await (lines 55-65).\<close>

fun onSubmit_resolved :: "Event reply \<Rightarrow> action list" where
  "onSubmit_resolved (Reply d (Some e)) = [ToastError (message_or e ''Error al crear el evento'')]"
| "onSubmit_resolved (Reply d None) = [ToastSuccess ''Evento creado exitosamente'', Navigate ''/'']"
| "onSubmit_resolved Rejected =
     [ConsoleError ''Error al crear evento:'', ToastError ''Error inesperado al crear el evento'']"

text \<open>
  \<open>form.handleSubmit(onSubmit)\<close> with the \<open>zodResolver\<close>: the values are validated, and
  \<open>onSubmit\<close> runs only when no issue was found; otherwise the issues are shown.
\<close>

definition handleSubmit ::
  "(string \<Rightarrow> string option) \<Rightarrow> CreateEventInput \<Rightarrow> (form_field \<times> string) list + action list" where
  "handleSubmit toISO values =
     (case eventSchema values of
        [] \<Rightarrow> Inr (onSubmit toISO values)
      | issue # issues \<Rightarrow> Inl (issue # issues))"

section \<open>Write operations and what follows their errors\<close>



section \<open>Sample data\<close>

definition msg1 :: ChatMessage where
  "msg1 = \<lparr>event_id = ''e1'', user_id = ''u1'', content = ''hello'', id_m = ''m1'',
           created_at_m = 10\<rparr>"

definition msg2 :: ChatMessage where
  "msg2 = \<lparr>event_id = ''e1'', user_id = ''u2'', content = ''hi'', id_m = ''m2'',
           created_at_m = 20\<rparr>"

definition offline :: db_error where
  "offline = PostgrestError ''Failed to fetch''"

definition user1 :: auth_user where
  "user1 = \<lparr>auth_id = ''u1'', email = Some ''u1@example.org''\<rparr>"

definition signed_in_view :: detail where
  "signed_in_view = run (mount (Some ''e1'')) [SessionResolved (Some user1)]"

definition stamp :: presence where
  "stamp = \<lparr>tracked_user = ''u2'', online_at = ''2025-01-01T18:00:00.000Z''\<rparr>"

definition sample_toISO :: "string \<Rightarrow> string option" where
  "sample_toISO x =
     (if x = ''2025-01-01T18:00'' then Some ''2025-01-01T18:00:00.000Z'' else None)"

definition sample_values :: CreateEventInput where
  "sample_values = \<lparr>title = ''Launch'', description = Some [], date = ''2025-01-01T18:00'',
     location = ''HQ''\<rparr>"

definition untitled_values :: CreateEventInput where
  "untitled_values = \<lparr>title = [], description = None, date = ''2025-01-01T18:00'',
     location = ''HQ''\<rparr>"

definition typing_view :: detail where
  "typing_view = run (mount (Some ''e1'')) [SessionResolved (Some user1), Typed ''  hello '']"

definition hello_input :: CreateMessageInput where
  "hello_input = \<lparr>event_id = ''e1'', user_id = ''u1'', content = ''hello''\<rparr>"

definition blank_view :: detail where
  "blank_view = run (mount (Some ''e1'')) [SessionResolved (Some user1), Typed ''   '']"

definition uuid_e1 :: string where
  "uuid_e1 = ''11111111-1111-4111-8111-111111111111''"

definition uuid_e2 :: string where
  "uuid_e2 = ''22222222-2222-4222-8222-222222222222''"

definition uuid_e3 :: string where
  "uuid_e3 = ''33333333-3333-4333-8333-333333333333''"

definition uuid_u1 :: string where
  "uuid_u1 = ''aaaaaaaa-aaaa-4aaa-8aaa-aaaaaaaaaaaa''"

definition uuid_u2 :: string where
  "uuid_u2 = ''bbbbbbbb-bbbb-4bbb-8bbb-bbbbbbbbbbbb''"

definition ev1 :: Event where
  "ev1 = \<lparr>title = ''Launch'', description = None, date = ''2025-01-01T18:00:00+00:00'',
          location = ''HQ'', id_e = uuid_e1, created_at_e = 1, updated_at = 1\<rparr>"

definition ev2 :: Event where
  "ev2 = \<lparr>title = ''Retro'', description = Some ''Notes'', date = ''2025-02-01T09:00:00+00:00'',
          location = ''Room 2'', id_e = uuid_e2, created_at_e = 2, updated_at = 3\<rparr>"

definition row1 :: ChatMessage where
  "row1 = \<lparr>event_id = uuid_e1, user_id = uuid_u1, content = ''hello'',
           id_m = ''c1c1c1c1-c1c1-4c1c-8c1c-c1c1c1c1c1c1'', created_at_m = 10\<rparr>"

definition row2 :: ChatMessage where
  "row2 = \<lparr>event_id = uuid_e1, user_id = uuid_u2, content = ''hi'',
           id_m = ''c2c2c2c2-c2c2-4c2c-8c2c-c2c2c2c2c2c2'', created_at_m = 20\<rparr>"

text \<open>A server that reads and prints one instant, given in microseconds.\<close>

definition sample_timestamptz_in :: "string \<Rightarrow> timestamp option" where
  "sample_timestamptz_in v =
     (if v = ''2025-01-01T18:00:00.000Z'' then Some 1735754400000000 else None)"

definition sample_timestamptz_out :: "timestamp \<Rightarrow> string" where
  "sample_timestamptz_out t =
     (if t = 1735754400000000 then ''2025-01-01T18:00:00+00:00'' else [])"

definition sample_backend :: backend where
  "sample_backend = \<lparr>events = [ev1, ev2], chat_messages = [row2, row1],
     auth_users = [uuid_u1, uuid_u2], fault = None, next_uuid = uuid_e3,
     now = 1735689600000000, timestamptz_in = sample_timestamptz_in,
     timestamptz_out = sample_timestamptz_out\<rparr>"


section \<open>Properties of the merge\<close>

lemma onNewMessage_cases:
  "onNewMessage m prev = (if id_m m \<in> set (map id_m prev) then prev else prev @ [m])"
  unfolding onNewMessage_def list_ex_iff by (simp add: image_iff) metis

lemma first_seen_cong_set:
  "set seen = set seen' \<Longrightarrow> first_seen seen ms = first_seen seen' ms"
proof (induction ms arbitrary: seen seen')
  case Nil
  show ?case by simp
next
  case (Cons m ms)
  have a: "first_seen (id_m m # seen) ms = first_seen (id_m m # seen') ms"
    by (rule Cons.IH) (simp add: Cons.prems)
  have b: "first_seen seen ms = first_seen seen' ms"
    by (rule Cons.IH) (rule Cons.prems)
  from a b Cons.prems show ?case by simp
qed

lemma deliveries_first_seen:
  "deliveries ms prev = prev @ first_seen (map id_m prev) ms"
proof (induction ms arbitrary: prev)
  case Nil
  show ?case by (simp add: deliveries_def)
next
  case (Cons m ms)
  have step: "deliveries (m # ms) prev = deliveries ms (onNewMessage m prev)"
    by (simp add: deliveries_def)
  show ?case
  proof (cases "id_m m \<in> set (map id_m prev)")
    case True
    then show ?thesis
      using Cons.IH [of prev] by (simp add: step onNewMessage_cases)
  next
    case False
    have "first_seen (map id_m (prev @ [m])) ms = first_seen (id_m m # map id_m prev) ms"
      by (rule first_seen_cong_set) auto
    with False show ?thesis
      using Cons.IH [of "prev @ [m]"] by (simp add: step onNewMessage_cases)
  qed
qed

lemma first_seen_ids:
  "set (map id_m (first_seen seen ms)) = set (map id_m ms) - set seen"
proof (induction ms arbitrary: seen)
  case Nil
  show ?case by simp
next
  case (Cons m ms)
  show ?case
  proof (cases "id_m m \<in> set seen")
    case True
    then show ?thesis using Cons.IH [of seen] by auto
  next
    case False
    then show ?thesis using Cons.IH [of "id_m m # seen"] by auto
  qed
qed

lemma first_seen_fresh:
  "set (map id_m (first_seen seen ms)) \<inter> set seen = {}"
  unfolding first_seen_ids by blast

lemma first_seen_distinct: "distinct (map id_m (first_seen seen ms))"
proof (induction ms arbitrary: seen)
  case Nil
  show ?case by simp
next
  case (Cons m ms)
  have "id_m m \<notin> set (map id_m (first_seen (id_m m # seen) ms))"
    using first_seen_fresh [of "id_m m # seen" ms] by auto
  with Cons.IH show ?case by simp
qed


lemma run_Nil: "run s [] = s"
  by (simp add: run_def)

lemma run_Cons: "run s (i # ins) = run (step s i) ins"
  by (simp add: run_def)

lemma messages_run_deliveries:
  "messages (run s (map (\<lambda>(t, m). RemoteInsert t m) ds)) = deliveries (map snd ds) (messages s)"
proof (induction ds arbitrary: s)
  case Nil
  show ?case by (simp add: run_Nil deliveries_def)
next
  case (Cons d ds)
  obtain t m where d: "d = (t, m)" by (cases d)
  have "messages (step s (RemoteInsert t m)) = onNewMessage m (messages s)"
    by (simp add: messageCallback_def)
  then show ?case
    using Cons.IH [of "step s (RemoteInsert t m)"] by (simp add: d run_Cons deliveries_def)
qed

text \<open>
  C1. Whatever sequence of remote-insert deliveries reaches the view, duplicates included,
  a message sequence with one entry per identifier stays so; one delivery appends its
  message to the tail exactly when no entry has its identifier and changes nothing
  otherwise; the sequence after all deliveries is the old one followed by the first-seen
  arrivals in arrival order, and it holds every delivered identifier.
\<close>

theorem remote_insert_merge:
  assumes "distinct (map id_m (messages s))"
  shows "distinct (map id_m (messages (run s (map (\<lambda>(t, m). RemoteInsert t m) ds))))
       \<and> messages (run s (map (\<lambda>(t, m). RemoteInsert t m) ds))
           = messages s @ first_seen (map id_m (messages s)) (map snd ds)
       \<and> set (map id_m (messages (run s (map (\<lambda>(t, m). RemoteInsert t m) ds))))
           = set (map id_m (messages s)) \<union> set (map id_m (map snd ds))
       \<and> (\<forall>t m. messages (step s (RemoteInsert t m))
             = (if id_m m \<in> set (map id_m (messages s)) then messages s
                else messages s @ [m]))"
proof -
  let ?s' = "run s (map (\<lambda>(t, m). RemoteInsert t m) ds)"
  let ?new = "first_seen (map id_m (messages s)) (map snd ds)"
  have eq: "messages ?s' = messages s @ ?new"
    by (simp add: messages_run_deliveries deliveries_first_seen)
  have fresh: "set (map id_m ?new) \<inter> set (map id_m (messages s)) = {}"
    by (rule first_seen_fresh)
  have d: "distinct (map id_m (messages ?s'))"
    unfolding eq using assms first_seen_distinct [of "map id_m (messages s)" "map snd ds"] fresh
    by (simp add: Int_commute)
  have ids: "set (map id_m (messages ?s'))
      = set (map id_m (messages s)) \<union> set (map id_m (map snd ds))"
    unfolding eq using first_seen_ids [of "map id_m (messages s)" "map snd ds"] by auto
  have one: "\<forall>t m. messages (step s (RemoteInsert t m))
             = (if id_m m \<in> set (map id_m (messages s)) then messages s
                else messages s @ [m])"
    by (simp add: messageCallback_def onNewMessage_cases)
  from d eq ids one show ?thesis by blast
qed

theorem remote_insert_merge_witness:
  "distinct (map id_m (messages (mount (Some ''e1''))))
   \<and> messages (run (mount (Some ''e1''))
        [RemoteInsert ''messages:e1'' msg2, RemoteInsert ''messages:e1'' msg1,
         RemoteInsert ''messages:e1'' msg2]) = [msg2, msg1]"
proof -
  have m: "messages (mount (Some ''e1'')) = []"
    by (simp add: mount_def initial_def realtime_effect_def fetchMessages_effect_def
        fetchEvent_effect_def getCurrentUser_effect_def emit_def Let_def)
  have h: "distinct (map id_m (messages (mount (Some ''e1''))))"
    by (simp add: m)
  from remote_insert_merge [OF h,
      of "[(''messages:e1'', msg2), (''messages:e1'', msg1), (''messages:e1'', msg2)]"]
  show ?thesis
    by (simp add: m msg1_def msg2_def)
qed

section \<open>Subscriptions and the trace\<close>

lemma open_channels_append:
  "open_channels (tr @ tr') = foldl channel_op (open_channels tr) tr'"
  by (simp add: open_channels_def)

lemma trace_cleanup: "trace (realtime_cleanup s) = trace s @ map Unsubscribe (held s)"
  by (simp add: realtime_cleanup_def held_def emit_def Let_def split: option.splits)

lemma cells_cleanup:
  "param_id (realtime_cleanup s) = param_id s"
  "currentUserId (realtime_cleanup s) = currentUserId s"
  "messages (realtime_cleanup s) = messages s"
  "messageChannel (realtime_cleanup s) = None"
  "presenceChannel (realtime_cleanup s) = None"
  by (simp_all add: realtime_cleanup_def emit_def Let_def split: option.splits)

lemma open_cleanup:
  assumes "open_channels (trace s) = held s"
  shows "open_channels (trace (realtime_cleanup s)) = []"
  using assms
  by (simp add: trace_cleanup open_channels_append)
     (simp add: held_def split: option.splits)

lemma trace_effect:
  "trace (realtime_effect s)
     = trace s @ map Subscribe (expected_channels (param_id s) (currentUserId s))"
  by (cases "param_id s"; cases "currentUserId s")
     (simp_all add: realtime_effect_def expected_channels_def emit_def Let_def)

lemma held_effect:
  assumes "messageChannel s = None" "presenceChannel s = None"
  shows "held (realtime_effect s) = expected_channels (param_id s) (currentUserId s)"
  using assms
  by (cases "param_id s"; cases "currentUserId s")
     (simp_all add: realtime_effect_def expected_channels_def held_def emit_def Let_def)

lemma cells_effect:
  "param_id (realtime_effect s) = param_id s"
  "currentUserId (realtime_effect s) = currentUserId s"
  "messages (realtime_effect s) = messages s"
  by (cases "param_id s"; cases "currentUserId s";
      simp add: realtime_effect_def emit_def Let_def)+

lemma open_subscribe: "foldl channel_op cs (map Subscribe ts) = cs @ ts"
  by (induction ts arbitrary: cs) simp_all

lemma channels_ok_effect:
  assumes "messageChannel s = None" "presenceChannel s = None" "open_channels (trace s) = []"
  shows "channels_ok (realtime_effect s)"
  using assms
  by (simp add: channels_ok_def held_effect trace_effect open_channels_append open_subscribe
      cells_effect)

lemma fetch_effects:
  "fetchMessages_effect (fetchEvent_effect s) = emit (fetch_calls (param_id s)) s"
  by (cases "param_id s")
     (simp_all add: fetchMessages_effect_def fetchEvent_effect_def fetch_calls_def emit_def)

lemma channel_op_fetch_calls: "foldl channel_op cs (fetch_calls i) = cs"
  by (simp add: fetch_calls_def)

lemma trace_mount:
  "trace (mount i) = CallGetSession # fetch_calls i @ map Subscribe (expected_channels i None)"
  by (simp add: mount_def fetch_effects trace_effect getCurrentUser_effect_def emit_def
      initial_def)

lemma channels_ok_mount: "channels_ok (mount i)"
  unfolding mount_def fetch_effects
  by (rule channels_ok_effect)
     (simp_all add: emit_def getCurrentUser_effect_def initial_def open_channels_def
        channel_op_fetch_calls)

lemma trace_route_change:
  assumes "param_id s \<noteq> j"
  shows "trace (route_change j s)
     = trace s @ map Unsubscribe (held s) @ fetch_calls j
        @ map Subscribe (expected_channels j (currentUserId s))"
  using assms
  by (simp add: route_change_def fetch_effects trace_effect emit_def trace_cleanup cells_cleanup)

lemma channels_ok_route_change:
  assumes "channels_ok s"
  shows "channels_ok (route_change j s)"
proof (cases "param_id s = j")
  case True
  with assms show ?thesis by (simp add: route_change_def)
next
  case False
  have o: "open_channels (trace (realtime_cleanup s)) = []"
    using assms by (simp add: channels_ok_def open_cleanup)
  have "channels_ok (realtime_effect
          (emit (fetch_calls j) ((realtime_cleanup s)\<lparr>param_id := j\<rparr>)))"
    by (rule channels_ok_effect)
       (simp_all add: emit_def cells_cleanup open_channels_append o channel_op_fetch_calls)
  with False show ?thesis
    by (simp add: route_change_def fetch_effects)
qed

lemma channels_ok_session:
  assumes "channels_ok s"
  shows "channels_ok (getCurrentUser_resolved session s)"
proof -
  have o: "open_channels (trace (realtime_cleanup s)) = []"
    using assms by (simp add: channels_ok_def open_cleanup)
  have "channels_ok (realtime_effect ((realtime_cleanup s)\<lparr>currentUserId := uid\<rparr>))" for uid
    by (rule channels_ok_effect) (simp_all add: cells_cleanup o)
  with assms show ?thesis
    by (simp add: getCurrentUser_resolved_def Let_def)
qed

lemma channels_ok_cong:
  assumes "channels_ok s" "open_channels (trace s') = open_channels (trace s)"
    "messageChannel s' = messageChannel s" "presenceChannel s' = presenceChannel s"
    "param_id s' = param_id s" "currentUserId s' = currentUserId s"
  shows "channels_ok s'"
  using assms by (simp add: channels_ok_def held_def)

lemma channels_ok_step:
  assumes "channels_ok s"
  shows "channels_ok (step s inp)"
proof (cases inp)
  case (SessionResolved session)
  with assms show ?thesis by (simp add: channels_ok_session)
next
  case (EventResolved r)
  show ?thesis unfolding EventResolved
    by (rule channels_ok_cong [OF assms]; cases "(r, s)" rule: fetchEvent_resolved.cases)
       (simp_all add: emit_def open_channels_append)
next
  case (MessagesResolved r)
  show ?thesis unfolding MessagesResolved
    by (rule channels_ok_cong [OF assms]; cases "(r, s)" rule: fetchMessages_resolved.cases)
       (simp_all add: emit_def open_channels_append)
next
  case (RemoteInsert t m)
  show ?thesis unfolding RemoteInsert
    by (rule channels_ok_cong [OF assms]) (simp_all add: messageCallback_def)
next
  case (PresenceChange t n)
  show ?thesis unfolding PresenceChange
    by (rule channels_ok_cong [OF assms]) (simp_all add: presenceCallback_def)
next
  case (Typed v)
  show ?thesis unfolding Typed
    by (rule channels_ok_cong [OF assms]) simp_all
next
  case SubmitMessage
  show ?thesis unfolding SubmitMessage
    by (rule channels_ok_cong [OF assms])
       (simp_all add: handleSendMessage_def emit_def open_channels_append)
next
  case (SendResolved r)
  show ?thesis unfolding SendResolved
    by (rule channels_ok_cong [OF assms];
        cases "(r, s)" rule: handleSendMessage_resolved.cases)
       (simp_all add: emit_def open_channels_append)
next
  case (RouteChange j)
  with assms show ?thesis by (simp add: channels_ok_route_change)
qed

lemma channels_ok_run:
  assumes "channels_ok s"
  shows "channels_ok (run s ins)"
  using assms
  by (induction ins arbitrary: s) (simp_all add: run_Nil run_Cons channels_ok_step)

text \<open>
  C2, as stated, fails: the view of event e1 is mounted and its initial fetch of messages
  fails. The error is reported, but the message-stream channel, subscribed at mount, is
  open.
\<close>

theorem fetch_failure_subscription_counterexample:
  "ToastError ''Failed to fetch''
     \<in> set (trace (step (mount (Some ''e1'')) (MessagesResolved (Reply None (Some offline)))))
   \<and> open_channels (trace (step (mount (Some ''e1'')) (MessagesResolved (Reply None (Some offline)))))
       = [''messages:e1'']"
  by (simp add: trace_mount emit_def offline_def message_or_def fetch_calls_def
      expected_channels_def open_channels_def messages_topic_def)

text \<open>
  C2, amended. A failed initial fetch of messages, whether the call returns an error or
  throws, is reported to the user. The message-stream subscription is opened all the same:
  no outcome of the fetch opens or closes a channel, and the subscription of a view with a
  non-empty event identifier is made at mount, so it is open when the fetch has failed.
\<close>

theorem fetch_failure_reported:
  "new_actions s (step s (MessagesResolved (Reply d (Some e))))
     = [ToastError (message_or e ''Error al cargar mensajes'')]
   \<and> new_actions s (step s (MessagesResolved Rejected))
     = [ConsoleError ''Error al cargar mensajes:'',
        ToastError ''Error inesperado al cargar mensajes'']
   \<and> open_channels (trace (step s (MessagesResolved r))) = open_channels (trace s)
   \<and> (i \<noteq> [] \<longrightarrow>
        open_channels (trace (step (mount (Some i)) (MessagesResolved (Reply d (Some e)))))
          = [messages_topic i]
        \<and> open_channels (trace (step (mount (Some i)) (MessagesResolved Rejected)))
          = [messages_topic i])"
proof -
  have a: "new_actions s (step s (MessagesResolved (Reply d (Some e))))
     = [ToastError (message_or e ''Error al cargar mensajes'')]"
    by (simp add: new_actions_def emit_def)
  have a': "new_actions s (step s (MessagesResolved Rejected))
     = [ConsoleError ''Error al cargar mensajes:'',
        ToastError ''Error inesperado al cargar mensajes'']"
    by (simp add: new_actions_def emit_def)
  have b: "open_channels (trace (step s' (MessagesResolved r'))) = open_channels (trace s')"
    for s' r'
    by (cases "(r', s')" rule: fetchMessages_resolved.cases)
       (simp_all add: emit_def open_channels_append)
  have c0: "open_channels (trace (mount (Some i))) = [messages_topic i]" if "i \<noteq> []"
    using that channels_ok_mount [of "Some i"]
    by (simp add: channels_ok_def expected_channels_def mount_def fetch_effects
        cells_effect emit_def getCurrentUser_effect_def initial_def)
  have c: "open_channels (trace (step (mount (Some i)) (MessagesResolved r'))) = [messages_topic i]"
    if "i \<noteq> []" for r'
    unfolding b by (rule c0 [OF that])
  from a a' b c show ?thesis by blast
qed

theorem fetch_failure_reported_witness:
  "''e1'' \<noteq> []
   \<and> open_channels (trace (step (mount (Some ''e1'')) (MessagesResolved (Reply None (Some offline)))))
       = [messages_topic ''e1'']
   \<and> open_channels (trace (step (mount (Some ''e1'')) (MessagesResolved Rejected)))
       = [messages_topic ''e1'']"
  using fetch_failure_reported [of s "None" offline r "''e1''"] by simp

text \<open>
  C4, as stated, fails: the view moves from event e1 to event e2, which closes the channel
  of e1; the callback registered for e1 then fires with a message of e1. The message is
  appended to the sequence shown for e2.
\<close>

theorem stale_callback_counterexample:
  "param_id (run (mount (Some ''e1'')) [RouteChange (Some ''e2'')]) = Some ''e2''
   \<and> messages_topic ''e1''
       \<notin> set (open_channels (trace (run (mount (Some ''e1'')) [RouteChange (Some ''e2'')])))
   \<and> event_id msg1 = ''e1''
   \<and> messages (run (mount (Some ''e1'')) [RouteChange (Some ''e2'')]) = []
   \<and> messages (run (mount (Some ''e1''))
        [RouteChange (Some ''e2''), RemoteInsert (messages_topic ''e1'') msg1]) = [msg1]"
proof -
  let ?s = "mount (Some ''e1'')"
  have ok: "channels_ok ?s" by (rule channels_ok_mount)
  have p: "param_id ?s = Some ''e1''" "currentUserId ?s = None" "messages ?s = []"
    by (simp_all add: mount_def fetch_effects cells_effect emit_def getCurrentUser_effect_def
        initial_def)
  have ok': "channels_ok (route_change (Some ''e2'') ?s)"
    by (rule channels_ok_route_change [OF ok])
  have q: "param_id (route_change (Some ''e2'') ?s) = Some ''e2''"
    "currentUserId (route_change (Some ''e2'') ?s) = None"
    "messages (route_change (Some ''e2'') ?s) = []"
    by (simp_all add: route_change_def p fetch_effects cells_effect emit_def cells_cleanup)
  have o: "open_channels (trace (route_change (Some ''e2'') ?s)) = [messages_topic ''e2'']"
    using ok' by (simp add: channels_ok_def q expected_channels_def)
  show ?thesis
    by (simp add: run_Cons run_Nil q o messageCallback_def onNewMessage_def msg1_def
        messages_topic_def)
qed

text \<open>
  C4, amended. In every state the view reaches after mount, the open channels are exactly
  those of the displayed event and user. A change of the route parameter unsubscribes
  these first, then calls the repositories, then subscribes the channels of the new event;
  unmounting unsubscribes them all. The message callback does not look at the event or at
  the channel: whenever it is invoked, for any topic, it merges the delivered message.
\<close>

theorem channel_lifecycle:
  assumes "s = run (mount i) ins"
  shows "open_channels (trace s) = expected_channels (param_id s) (currentUserId s)
       \<and> (param_id s \<noteq> j \<longrightarrow>
            trace (step s (RouteChange j))
              = trace s @ map Unsubscribe (expected_channels (param_id s) (currentUserId s))
                 @ fetch_calls j @ map Subscribe (expected_channels j (currentUserId s)))
       \<and> open_channels (trace (step s (RouteChange j))) = expected_channels j (currentUserId s)
       \<and> trace (unmount s)
            = trace s @ map Unsubscribe (expected_channels (param_id s) (currentUserId s))
       \<and> open_channels (trace (unmount s)) = []
       \<and> messages (step s (RemoteInsert t m)) = onNewMessage m (messages s)"
proof -
  have ok: "channels_ok s"
    unfolding assms by (rule channels_ok_run [OF channels_ok_mount])
  then have h: "held s = expected_channels (param_id s) (currentUserId s)"
    and o: "open_channels (trace s) = held s"
    by (simp_all add: channels_ok_def)
  have a: "open_channels (trace s) = expected_channels (param_id s) (currentUserId s)"
    using h o by simp
  have b: "trace (step s (RouteChange j))
              = trace s @ map Unsubscribe (expected_channels (param_id s) (currentUserId s))
                 @ fetch_calls j @ map Subscribe (expected_channels j (currentUserId s))"
    if "param_id s \<noteq> j"
    using trace_route_change [OF that] h by simp
  have ok': "channels_ok (route_change j s)"
    by (rule channels_ok_route_change [OF ok])
  have u: "currentUserId (route_change j s) = currentUserId s"
    "param_id (route_change j s) = j"
    by (simp_all add: route_change_def fetch_effects cells_effect emit_def cells_cleanup)
  have c: "open_channels (trace (step s (RouteChange j))) = expected_channels j (currentUserId s)"
    using ok' by (simp add: channels_ok_def u)
  have d: "trace (unmount s)
            = trace s @ map Unsubscribe (expected_channels (param_id s) (currentUserId s))"
    by (simp add: unmount_def trace_cleanup h)
  have e: "open_channels (trace (unmount s)) = []"
    by (simp add: unmount_def open_cleanup o)
  have f: "messages (step s (RemoteInsert t m)) = onNewMessage m (messages s)"
    by (simp add: messageCallback_def)
  from a b c d e f show ?thesis by blast
qed

theorem channel_lifecycle_witness:
  "signed_in_view = run (mount (Some ''e1'')) [SessionResolved (Some user1)]
   \<and> param_id signed_in_view \<noteq> Some ''e2''
   \<and> open_channels (trace signed_in_view) = [''messages:e1'', ''presence:e1'']
   \<and> trace (step signed_in_view (RouteChange (Some ''e2'')))
       = trace signed_in_view
          @ [Unsubscribe ''messages:e1'', Unsubscribe ''presence:e1'',
             CallGetEventById ''e2'', CallGetMessagesByEvent ''e2'',
             Subscribe ''messages:e2'', Subscribe ''presence:e2'']
   \<and> open_channels (trace (unmount signed_in_view)) = []"
proof -
  have m: "param_id (mount (Some ''e1'')) = Some ''e1''"
    "currentUserId (mount (Some ''e1'')) = None"
    by (simp_all add: mount_def fetch_effects cells_effect emit_def getCurrentUser_effect_def
        initial_def)
  have p: "param_id signed_in_view = Some ''e1''" "currentUserId signed_in_view = Some ''u1''"
    by (simp_all add: signed_in_view_def run_Cons run_Nil getCurrentUser_resolved_def user1_def
        m cells_effect cells_cleanup)
  note L = channel_lifecycle [OF signed_in_view_def, of "Some ''e2''" "[]" msg1]
  have ne: "param_id signed_in_view \<noteq> Some ''e2''"
    by (simp add: p)
  from L have a: "open_channels (trace signed_in_view)
      = expected_channels (param_id signed_in_view) (currentUserId signed_in_view)"
    by blast
  from L ne have b: "trace (step signed_in_view (RouteChange (Some ''e2'')))
      = trace signed_in_view
         @ map Unsubscribe (expected_channels (param_id signed_in_view) (currentUserId signed_in_view))
         @ fetch_calls (Some ''e2'')
         @ map Subscribe (expected_channels (Some ''e2'') (currentUserId signed_in_view))"
    by blast
  from L have c: "open_channels (trace (unmount signed_in_view)) = []"
    by blast
  have a': "open_channels (trace signed_in_view) = [''messages:e1'', ''presence:e1'']"
    unfolding a by (simp add: p expected_channels_def messages_topic_def presence_topic_def)
  have b': "trace (step signed_in_view (RouteChange (Some ''e2'')))
       = trace signed_in_view
          @ [Unsubscribe ''messages:e1'', Unsubscribe ''presence:e1'',
             CallGetEventById ''e2'', CallGetMessagesByEvent ''e2'',
             Subscribe ''messages:e2'', Subscribe ''presence:e2'']"
    unfolding b
    by (simp add: p expected_channels_def fetch_calls_def messages_topic_def presence_topic_def)
  from signed_in_view_def ne a' b' c show ?thesis by blast
qed

section \<open>Presence count\<close>

lemma key_count_track_new:
  assumes "k \<notin> fmdom' state"
  shows "key_count (track k p state) = key_count state + 1"
  using assms
  by (simp add: key_count_def track_def fmdom'_alt_def fcard_finsert_disjoint)

lemma key_count_track_old:
  assumes "k \<in> fmdom' state"
  shows "key_count (track k p state) = key_count state"
  using assms
  by (simp add: key_count_def track_def fmdom'_alt_def finsert_absorb)

lemma leave_track:
  assumes "k \<notin> fmdom' state"
  shows "key_count (leave k (track k p state)) = key_count state"
  using assms
  by (simp add: key_count_def track_def leave_def fmdom'_alt_def)

text \<open>
  C3. On each of sync, join and leave the listener calls the caller's callback with the
  number of distinct keys of the channel's current state, and the view stores that number.
  With the channel's state evolving as the specification describes: after the local user
  alone is tracked the count is 1; after a second, different identifier is tracked it is
  2; after either of the two leaves it is 1 again. In general a new key raises the count
  by one, its leaving restores the count, and a key already present does not change it.
\<close>

theorem presence_count:
  "on_presence ev state onPresenceChange = onPresenceChange (fcard (fmdom state))
   \<and> onlineUsersCount (on_presence ev state (\<lambda>n. presenceCallback n s))
       = fcard (fmdom state)
   \<and> key_count (on_status ''SUBSCRIBED'' u t fmempty) = 1
   \<and> (v \<noteq> u \<longrightarrow>
        key_count (track v q (on_status ''SUBSCRIBED'' u t fmempty)) = 2
        \<and> key_count (leave v (track v q (on_status ''SUBSCRIBED'' u t fmempty))) = 1
        \<and> key_count (leave u (track v q (on_status ''SUBSCRIBED'' u t fmempty))) = 1)
   \<and> (k \<notin> fmdom' state \<longrightarrow>
        key_count (track k p state) = key_count state + 1
        \<and> key_count (leave k (track k p state)) = key_count state)
   \<and> (k \<in> fmdom' state \<longrightarrow> key_count (track k p state) = key_count state)"
proof -
  have a: "on_presence ev state f = f (fcard (fmdom state))" for f :: "nat \<Rightarrow> 'b"
    by (cases ev) (simp_all add: key_count_def)
  have b: "onlineUsersCount (on_presence ev state (\<lambda>n. presenceCallback n s))
       = fcard (fmdom state)"
    by (simp add: a presenceCallback_def)
  let ?one = "on_status ''SUBSCRIBED'' u t fmempty"
  have d1: "fmdom' ?one = {u}"
    by (simp add: on_status_def track_def)
  have c: "key_count ?one = 1"
    by (simp add: on_status_def key_count_def track_def fcard_finsert_disjoint)
  have d: "key_count (track v q ?one) = 2
        \<and> key_count (leave v (track v q ?one)) = 1
        \<and> key_count (leave u (track v q ?one)) = 1" if "v \<noteq> u"
  proof -
    have n: "v \<notin> fmdom' ?one" using that by (simp add: d1)
    have two: "key_count (track v q ?one) = 2"
      using key_count_track_new [OF n] c by simp
    have ret: "key_count (leave v (track v q ?one)) = 1"
      using leave_track [OF n] c by simp
    have "fmdom (leave u (track v q ?one)) = {|v|}"
      using that by (auto simp: leave_def track_def on_status_def)
    then have other: "key_count (leave u (track v q ?one)) = 1"
      by (simp add: key_count_def fcard_finsert_disjoint)
    from two ret other show ?thesis by simp
  qed
  from a [of onPresenceChange] b c d key_count_track_new [of k state p]
    leave_track [of k state p] key_count_track_old [of k state p]
  show ?thesis by blast
qed

theorem presence_count_witness:
  "''u2'' \<noteq> ''u1''
   \<and> ''u3'' \<notin> fmdom' (track ''u2'' stamp (on_status ''SUBSCRIBED'' ''u1'' ''t0'' fmempty))
   \<and> ''u2'' \<in> fmdom' (track ''u2'' stamp (on_status ''SUBSCRIBED'' ''u1'' ''t0'' fmempty))
   \<and> key_count (on_status ''SUBSCRIBED'' ''u1'' ''t0'' fmempty) = 1
   \<and> key_count (track ''u2'' stamp (on_status ''SUBSCRIBED'' ''u1'' ''t0'' fmempty)) = 2
   \<and> key_count (leave ''u2'' (track ''u2'' stamp (on_status ''SUBSCRIBED'' ''u1'' ''t0'' fmempty))) = 1
   \<and> key_count (leave ''u1'' (track ''u2'' stamp (on_status ''SUBSCRIBED'' ''u1'' ''t0'' fmempty))) = 1
   \<and> key_count (track ''u3'' stamp (track ''u2'' stamp (on_status ''SUBSCRIBED'' ''u1'' ''t0'' fmempty))) = 3
   \<and> key_count (track ''u2'' stamp (track ''u2'' stamp (on_status ''SUBSCRIBED'' ''u1'' ''t0'' fmempty))) = 2"
proof -
  let ?st = "track ''u2'' stamp (on_status ''SUBSCRIBED'' ''u1'' ''t0'' fmempty)"
  have d: "fmdom' ?st = {''u2'', ''u1''}"
    by (simp add: on_status_def track_def)
  have h1: "''u2'' \<noteq> ''u1''" by simp
  have h2: "''u3'' \<notin> fmdom' ?st" by (simp add: d)
  have h3: "''u2'' \<in> fmdom' ?st" by (simp add: d)
  note P = presence_count [of Sync ?st id "initial None" "''u1''" "''t0''" "''u2''" stamp "''u3''" stamp]
  note Q = presence_count [of Sync ?st id "initial None" "''u1''" "''t0''" "''u2''" stamp "''u2''" stamp]
  from P h1 h2 have two: "key_count ?st = 2" by blast
  from P h2 have three: "key_count (track ''u3'' stamp ?st) = key_count ?st + 1" by blast
  from Q h3 have same: "key_count (track ''u2'' stamp ?st) = key_count ?st" by blast
  from P h1 h2 h3 two three same show ?thesis by simp
qed

section \<open>Loading and deleting\<close>

lemma uuid_in_samples:
  "uuid_in uuid_e1 = Some uuid_e1" "uuid_in uuid_e2 = Some uuid_e2"
  "uuid_in uuid_u1 = Some uuid_u1" "uuid_in ''abc'' = None"
  "uuid_in ''{A0EEBC99-9C0B4EF8-BB6D6BB9-BD380A11}'' = Some ''a0eebc99-9c0b-4ef8-bb6d-6bb9bd380a11''"
  "uuid_in ''a0ee-bc99-9c0b-4ef8-bb6d-6bb9-bd38-0a11'' = Some ''a0eebc99-9c0b-4ef8-bb6d-6bb9bd380a11''"
  "uuid_in ''a0eebc99-9c0b-4ef8-bb6d-6bb9bd380a11-'' = None"
  "uuid_in ''a-0eebc99-9c0b-4ef8-bb6d-6bb9bd380a11'' = None"
  by code_simp+

lemma getMessagesByEvent_sample:
  "getMessagesByEvent sample_backend uuid_e1 = Reply (Some [row1, row2]) None"
  by (simp add: getMessagesByEvent_def uuid_in_samples sample_backend_def row1_def row2_def)

text \<open>
  C5. For every event identifier \<open>getMessagesByEvent\<close> gives either a fetch error (the
  request fails, or the identifier is not of the column's type) or all messages of that
  event, each once, in ascending order of creation time. For an event without message
  rows, on a store that answers, it gives the empty sequence and no error; the view then
  holds no messages, has stopped loading, has reported nothing, and, with the event
  loaded, shows the no-messages state.
\<close>

theorem load_initial_messages:
  "(case getMessagesByEvent b i of
      Reply (Some rows) None \<Rightarrow>
        fault b = None \<and> uuid_in i \<noteq> None \<and> sorted (map created_at_m rows)
        \<and> mset rows = mset (filter (\<lambda>m. Some (event_id m) = uuid_in i) (chat_messages b))
    | Reply None (Some e) \<Rightarrow>
        fault b = Some e \<or> (fault b = None \<and> uuid_in i = None \<and> e = invalid_uuid i)
    | _ \<Rightarrow> False)
   \<and> (fault b = None \<and> uuid_in i = Some u
      \<and> (\<forall>m \<in> set (chat_messages b). event_id m \<noteq> u) \<longrightarrow>
        getMessagesByEvent b i = Reply (Some []) None
        \<and> messages (step s (MessagesResolved (getMessagesByEvent b i))) = []
        \<and> loading (step s (MessagesResolved (getMessagesByEvent b i))) = False
        \<and> trace (step s (MessagesResolved (getMessagesByEvent b i))) = trace s
        \<and> (event s \<noteq> None \<longrightarrow>
             render (step s (MessagesResolved (getMessagesByEvent b i))) = NoMessages))"
proof -
  have a: "(case getMessagesByEvent b i of
      Reply (Some rows) None \<Rightarrow>
        fault b = None \<and> uuid_in i \<noteq> None \<and> sorted (map created_at_m rows)
        \<and> mset rows = mset (filter (\<lambda>m. Some (event_id m) = uuid_in i) (chat_messages b))
    | Reply None (Some e) \<Rightarrow>
        fault b = Some e \<or> (fault b = None \<and> uuid_in i = None \<and> e = invalid_uuid i)
    | _ \<Rightarrow> False)"
    by (cases "fault b"; cases "uuid_in i") (simp_all add: getMessagesByEvent_def)
  have z: "getMessagesByEvent b i = Reply (Some []) None"
    if "fault b = None" "uuid_in i = Some u" "\<forall>m \<in> set (chat_messages b). event_id m \<noteq> u"
  proof -
    have "filter (\<lambda>m. event_id m = u) (chat_messages b) = []"
      using that(3) by (simp add: filter_empty_conv)
    with that(1,2) show ?thesis by (simp add: getMessagesByEvent_def)
  qed
  have r: "render (fetchMessages_resolved (Reply (Some []) None) s) = NoMessages"
    if "event s \<noteq> None"
    using that by (simp add: render_def)
  from a z r show ?thesis by simp
qed

theorem load_initial_messages_witness:
  "fault sample_backend = None
   \<and> uuid_in uuid_e2 = Some uuid_e2
   \<and> filter (\<lambda>m. event_id m = uuid_e2) (chat_messages sample_backend) = []
   \<and> event (run (mount (Some uuid_e2)) [EventResolved (getEventById sample_backend uuid_e2)])
       = Some ev2
   \<and> getMessagesByEvent sample_backend uuid_e2 = Reply (Some []) None
   \<and> render (run (mount (Some uuid_e2))
        [EventResolved (getEventById sample_backend uuid_e2),
         MessagesResolved (getMessagesByEvent sample_backend uuid_e2)]) = NoMessages
   \<and> getMessagesByEvent sample_backend uuid_e1 = Reply (Some [row1, row2]) None
   \<and> getMessagesByEvent sample_backend ''abc'' = Reply None (Some (invalid_uuid ''abc''))"
proof -
  let ?s = "run (mount (Some uuid_e2)) [EventResolved (getEventById sample_backend uuid_e2)]"
  have h1: "fault sample_backend = None"
    by (simp add: sample_backend_def)
  have ne: "uuid_e1 \<noteq> uuid_e2"
    by (simp add: uuid_e1_def uuid_e2_def)
  have h2: "\<forall>m \<in> set (chat_messages sample_backend). event_id m \<noteq> uuid_e2"
    using ne by (simp add: sample_backend_def row1_def row2_def)
  have f: "filter (\<lambda>m. event_id m = uuid_e2) (chat_messages sample_backend) = []"
    using h2 by (simp add: filter_empty_conv)
  have g: "getEventById sample_backend uuid_e2 = Reply (Some ev2) None"
    using ne by (simp add: getEventById_def uuid_in_samples sample_backend_def ev1_def ev2_def)
  have h3: "event ?s = Some ev2"
    by (simp add: run_Cons run_Nil g)
  then have h3': "event ?s \<noteq> None" by simp
  have split: "run (mount (Some uuid_e2))
        [EventResolved (getEventById sample_backend uuid_e2),
         MessagesResolved (getMessagesByEvent sample_backend uuid_e2)]
      = step ?s (MessagesResolved (getMessagesByEvent sample_backend uuid_e2))"
    by (simp add: run_Cons run_Nil)
  have bad: "getMessagesByEvent sample_backend ''abc'' = Reply None (Some (invalid_uuid ''abc''))"
    by (simp add: getMessagesByEvent_def uuid_in_samples h1)
  from load_initial_messages [of sample_backend uuid_e2 uuid_e2 ?s] h1 h2 h3' uuid_in_samples(2)
  have "getMessagesByEvent sample_backend uuid_e2 = Reply (Some []) None
      \<and> render (step ?s (MessagesResolved (getMessagesByEvent sample_backend uuid_e2))) = NoMessages"
    by blast
  with h1 f h3 uuid_in_samples(2) getMessagesByEvent_sample bad
  show ?thesis unfolding split by blast
qed

text \<open>
  C6. On a store that answers, \<open>deleteEvent\<close> for an event's identifier succeeds and
  removes the event together with every chat message that references it, leaving the
  other messages; fetching the messages of the deleted identifier afterwards gives the
  empty sequence and no error (fetching the event itself reports that there is no such
  row).
\<close>

theorem delete_event_cascade:
  assumes "fault b = None" and "uuid_in i = Some u"
  shows "snd (deleteEvent b i) = None
       \<and> chat_messages (fst (deleteEvent b i)) = filter (\<lambda>m. event_id m \<noteq> u) (chat_messages b)
       \<and> (\<forall>m \<in> set (chat_messages (fst (deleteEvent b i))). event_id m \<noteq> u)
       \<and> (\<forall>ev \<in> set (events (fst (deleteEvent b i))). id_e ev \<noteq> u)
       \<and> getMessagesByEvent (fst (deleteEvent b i)) i = Reply (Some []) None
       \<and> getEventById (fst (deleteEvent b i)) i = Reply None (Some no_single_row)"
proof -
  let ?b = "fst (deleteEvent b i)"
  have d: "deleteEvent b i
      = (b\<lparr>events := filter (\<lambda>ev. id_e ev \<noteq> u) (events b),
           chat_messages := filter (\<lambda>m. event_id m \<noteq> u) (chat_messages b)\<rparr>, None)"
    using assms by (simp add: deleteEvent_def)
  have f: "fault ?b = None" using assms by (simp add: d)
  have m: "chat_messages ?b = filter (\<lambda>m. event_id m \<noteq> u) (chat_messages b)"
    by (simp add: d)
  have e: "events ?b = filter (\<lambda>ev. id_e ev \<noteq> u) (events b)"
    by (simp add: d)
  have none: "filter (\<lambda>m. event_id m = u) (chat_messages ?b) = []"
    unfolding m by (simp add: filter_empty_conv)
  have gone: "filter (\<lambda>ev. id_e ev = u) (events ?b) = []"
    unfolding e by (simp add: filter_empty_conv)
  have g: "getMessagesByEvent ?b i = Reply (Some []) None"
    by (simp add: getMessagesByEvent_def f none assms(2))
  have h: "getEventById ?b i = Reply None (Some no_single_row)"
    by (simp add: getEventById_def f gone assms(2))
  have s: "snd (deleteEvent b i) = None" by (simp add: d)
  from s m e g h show ?thesis by simp
qed

theorem delete_event_cascade_witness:
  "fault sample_backend = None
   \<and> uuid_in uuid_e1 = Some uuid_e1
   \<and> getMessagesByEvent sample_backend uuid_e1 = Reply (Some [row1, row2]) None
   \<and> snd (deleteEvent sample_backend uuid_e1) = None
   \<and> chat_messages (fst (deleteEvent sample_backend uuid_e1)) = []
   \<and> getMessagesByEvent (fst (deleteEvent sample_backend uuid_e1)) uuid_e1 = Reply (Some []) None
   \<and> deleteEvent sample_backend ''abc'' = (sample_backend, Some (invalid_uuid ''abc''))"
proof -
  have h: "fault sample_backend = None"
    by (simp add: sample_backend_def)
  have c: "filter (\<lambda>m. event_id m \<noteq> uuid_e1) (chat_messages sample_backend) = []"
    by (simp add: sample_backend_def row1_def row2_def)
  have bad: "deleteEvent sample_backend ''abc'' = (sample_backend, Some (invalid_uuid ''abc''))"
    by (simp add: deleteEvent_def uuid_in_samples h)
  from delete_event_cascade [OF h uuid_in_samples(1)] h c getMessagesByEvent_sample
    uuid_in_samples(1) bad
  show ?thesis by simp
qed

section \<open>The create-event form and the write paths\<close>

lemma eventSchema_valid:
  assumes "1 \<le> length (title values)" "length (title values) \<le> 200"
    "\<forall>d. description values = Some d \<longrightarrow> length d \<le> 1000"
    "date values \<noteq> []"
    "1 \<le> length (location values)" "length (location values) \<le> 200"
  shows "eventSchema values = []"
  using assms by (cases "description values") (auto simp: eventSchema_def)

lemma eventSchema_empty_title:
  assumes "title values = []"
  shows "\<exists>rest. eventSchema values = (Title, title_required) # rest"
  using assms by (simp add: eventSchema_def)

text \<open>
  C7. A submission with an empty title is rejected by the schema with the title-required
  issue, and \<open>onSubmit\<close> does not run: no action, so no network call, is made. A
  submission with a title and a location of 1 to 200 characters, a date that is not empty
  and converts to an ISO string, and a description that is absent or has at most 1000
  characters, makes exactly one \<open>createEvent\<close> call. On a store that answers, reads the
  texts and the converted date as values of their columns, and has an unused identifier to
  assign, the call succeeds and yields the created row, with the server-assigned
  identifier and both timestamps and with the date as the server prints it, and the view
  reports success.
\<close>

theorem create_event_submission:
  "(title values = [] \<longrightarrow>
      handleSubmit toISO values = Inl (eventSchema values)
      \<and> (Title, title_required) \<in> set (eventSchema values)
      \<and> (\<forall>as. handleSubmit toISO values \<noteq> Inr as))
   \<and> (1 \<le> length (title values) \<and> length (title values) \<le> 200
      \<and> (\<forall>d. description values = Some d \<longrightarrow> length d \<le> 1000)
      \<and> date values \<noteq> [] \<and> toISO (date values) = Some dateValue
      \<and> 1 \<le> length (location values) \<and> length (location values) \<le> 200
      \<and> fault b = None \<and> next_uuid b \<notin> set (map id_e (events b))
      \<and> pg_text (title values) \<and> pg_text_opt (description values)
      \<and> pg_text (location values) \<and> timestamptz_in b dateValue = Some t \<longrightarrow>
      (\<exists>inp row.
         handleSubmit toISO values = Inr [CallCreateEvent inp]
         \<and> title inp = title values \<and> date inp = dateValue \<and> location inp = location values
         \<and> createEvent b inp = (b\<lparr>events := events b @ [row]\<rparr>, Reply (Some row) None)
         \<and> id_e row = next_uuid b \<and> created_at_e row = now b \<and> updated_at row = now b
         \<and> title row = title values \<and> description row = description inp
         \<and> date row = timestamptz_out b t \<and> location row = location values
         \<and> onSubmit_resolved (snd (createEvent b inp))
             = [ToastSuccess ''Evento creado exitosamente'', Navigate ''/'']))"
proof -
  have a: "handleSubmit toISO values = Inl (eventSchema values)
      \<and> (Title, title_required) \<in> set (eventSchema values)
      \<and> (\<forall>as. handleSubmit toISO values \<noteq> Inr as)" if "title values = []"
  proof -
    from eventSchema_empty_title [OF that]
    obtain rest where r: "eventSchema values = (Title, title_required) # rest" ..
    then show ?thesis by (simp add: handleSubmit_def)
  qed
  have b: "\<exists>inp row.
         handleSubmit toISO values = Inr [CallCreateEvent inp]
         \<and> title inp = title values \<and> date inp = dateValue \<and> location inp = location values
         \<and> createEvent b inp = (b\<lparr>events := events b @ [row]\<rparr>, Reply (Some row) None)
         \<and> id_e row = next_uuid b \<and> created_at_e row = now b \<and> updated_at row = now b
         \<and> title row = title values \<and> description row = description inp
         \<and> date row = timestamptz_out b t \<and> location row = location values
         \<and> onSubmit_resolved (snd (createEvent b inp))
             = [ToastSuccess ''Evento creado exitosamente'', Navigate ''/'']"
    if v: "1 \<le> length (title values)" "length (title values) \<le> 200"
      "\<forall>d. description values = Some d \<longrightarrow> length d \<le> 1000"
      "date values \<noteq> []"
      "1 \<le> length (location values)" "length (location values) \<le> 200"
      and iso: "toISO (date values) = Some dateValue"
      and ok: "fault b = None" "next_uuid b \<notin> set (map id_e (events b))"
      and ty: "pg_text (title values)" "pg_text_opt (description values)"
        "pg_text (location values)" "timestamptz_in b dateValue = Some t"
  proof -
    let ?inp = "\<lparr>title = title values,
        description = (if truthy (description values) then description values else None),
        date = dateValue, location = location values\<rparr>"
    let ?row = "\<lparr>title = title values,
        description = (if truthy (description values) then description values else None),
        date = timestamptz_out b t, location = location values, id_e = next_uuid b,
        created_at_e = now b, updated_at = now b\<rparr>"
    have h: "handleSubmit toISO values = Inr [CallCreateEvent ?inp]"
      by (simp add: handleSubmit_def eventSchema_valid [OF v] onSubmit_def iso)
    have c: "createEvent b ?inp = (b\<lparr>events := events b @ [?row]\<rparr>, Reply (Some ?row) None)"
      using ok ty by (simp add: createEvent_def Let_def)
    show ?thesis
      apply (rule exI [of _ ?inp])
      apply (rule exI [of _ ?row])
      apply (simp only: h c)
      apply simp
      done
  qed
  from a b show ?thesis by blast
qed

theorem create_event_submission_witness:
  "title untitled_values = []
   \<and> handleSubmit sample_toISO untitled_values = Inl [(Title, title_required)]
   \<and> 1 \<le> length (title sample_values) \<and> length (title sample_values) \<le> 200
   \<and> description sample_values = Some []
   \<and> date sample_values \<noteq> []
   \<and> sample_toISO (date sample_values) = Some ''2025-01-01T18:00:00.000Z''
   \<and> 1 \<le> length (location sample_values) \<and> length (location sample_values) \<le> 200
   \<and> fault sample_backend = None
   \<and> next_uuid sample_backend \<notin> set (map id_e (events sample_backend))
   \<and> pg_text (title sample_values) \<and> pg_text_opt (description sample_values)
   \<and> pg_text (location sample_values)
   \<and> timestamptz_in sample_backend ''2025-01-01T18:00:00.000Z'' = Some 1735754400000000
   \<and> (\<exists>inp row.
         handleSubmit sample_toISO sample_values = Inr [CallCreateEvent inp]
         \<and> snd (createEvent sample_backend inp) = Reply (Some row) None
         \<and> id_e row = uuid_e3 \<and> created_at_e row = 1735689600000000
         \<and> updated_at row = 1735689600000000
         \<and> title row = ''Launch'' \<and> date row = ''2025-01-01T18:00:00+00:00''
         \<and> location row = ''HQ'')"
proof -
  have u: "title untitled_values = []"
    by (simp add: untitled_values_def)
  have h: "1 \<le> length (title sample_values) \<and> length (title sample_values) \<le> 200
      \<and> (\<forall>d. description sample_values = Some d \<longrightarrow> length d \<le> 1000)
      \<and> date sample_values \<noteq> []
      \<and> sample_toISO (date sample_values) = Some ''2025-01-01T18:00:00.000Z''
      \<and> 1 \<le> length (location sample_values) \<and> length (location sample_values) \<le> 200
      \<and> fault sample_backend = None
      \<and> next_uuid sample_backend \<notin> set (map id_e (events sample_backend))
      \<and> pg_text (title sample_values) \<and> pg_text_opt (description sample_values)
      \<and> pg_text (location sample_values)
      \<and> timestamptz_in sample_backend ''2025-01-01T18:00:00.000Z'' = Some 1735754400000000"
    by (simp add: sample_values_def sample_toISO_def sample_backend_def ev1_def ev2_def
        uuid_e1_def uuid_e2_def uuid_e3_def pg_text_def sample_timestamptz_in_def)
  have s: "eventSchema untitled_values = [(Title, title_required)]"
    by (simp add: eventSchema_def untitled_values_def)
  from create_event_submission [of untitled_values sample_toISO] u
  have r: "handleSubmit sample_toISO untitled_values = Inl [(Title, title_required)]"
    unfolding s by blast
  from create_event_submission
    [of sample_values sample_toISO "''2025-01-01T18:00:00.000Z''" sample_backend
      1735754400000000] h
  obtain inp row where
    c: "handleSubmit sample_toISO sample_values = Inr [CallCreateEvent inp]"
      "createEvent sample_backend inp
        = (sample_backend\<lparr>events := events sample_backend @ [row]\<rparr>, Reply (Some row) None)"
      "id_e row = next_uuid sample_backend" "created_at_e row = now sample_backend"
      "updated_at row = now sample_backend" "title row = title sample_values"
      "date row = timestamptz_out sample_backend 1735754400000000"
      "location row = location sample_values"
    by blast
  have v: "next_uuid sample_backend = uuid_e3" "now sample_backend = 1735689600000000"
    "title sample_values = ''Launch''" "location sample_values = ''HQ''"
    "timestamptz_out sample_backend 1735754400000000 = ''2025-01-01T18:00:00+00:00''"
    by (simp_all add: sample_backend_def sample_values_def sample_timestamptz_out_def)
  have e: "\<exists>inp row.
         handleSubmit sample_toISO sample_values = Inr [CallCreateEvent inp]
         \<and> snd (createEvent sample_backend inp) = Reply (Some row) None
         \<and> id_e row = uuid_e3 \<and> created_at_e row = 1735689600000000
         \<and> updated_at row = 1735689600000000
         \<and> title row = ''Launch'' \<and> date row = ''2025-01-01T18:00:00+00:00''
         \<and> location row = ''HQ''"
    apply (rule exI [of _ inp])
    apply (rule exI [of _ row])
    using c v apply simp
    done
  have dsc: "description sample_values = Some []"
    by (simp add: sample_values_def)
  from u r h dsc e show ?thesis by blast
qed


lemma typing_view_cells:
  "param_id typing_view = Some ''e1''" "currentUserId typing_view = Some ''u1''"
  "messageText typing_view = ''  hello ''" "sending typing_view = False"
  by (simp_all add: typing_view_def run_Cons run_Nil getCurrentUser_resolved_def user1_def
      mount_def initial_def realtime_effect_def realtime_cleanup_def fetchMessages_effect_def
      fetchEvent_effect_def getCurrentUser_effect_def emit_def Let_def)

lemma blank_view_cells:
  "param_id blank_view = Some ''e1''" "currentUserId blank_view = Some ''u1''"
  "messageText blank_view = ''   ''" "sending blank_view = False"
  by (simp_all add: blank_view_def run_Cons run_Nil getCurrentUser_resolved_def user1_def
      mount_def initial_def realtime_effect_def realtime_cleanup_def fetchMessages_effect_def
      fetchEvent_effect_def getCurrentUser_effect_def emit_def Let_def)

lemma trim_samples: "trim ''  hello '' = ''hello''" "trim ''   '' = []"
  by (simp_all add: trim_def isWhiteSpace_def)




text \<open>
  C9. If the message text trims to the empty string, or no user identifier or no event
  identifier is known, \<open>handleSendMessage\<close> makes no \<open>createMessage\<close> call and
  leaves the state cells unchanged. Whenever it makes the call, the content is the trimmed
  text, which is not empty, and the event and user identifiers are those of the view;
  when the guard passes this call is the only action.
\<close>

theorem send_message_guard:
  "(trim (messageText s) = [] \<or> \<not> truthy (currentUserId s) \<or> \<not> truthy (param_id s) \<longrightarrow>
      (\<forall>inp. CallCreateMessage inp \<notin> set (new_actions s (handleSendMessage s)))
      \<and> (handleSendMessage s)\<lparr>trace := trace s\<rparr> = s)
   \<and> (\<forall>inp. CallCreateMessage inp \<in> set (new_actions s (handleSendMessage s)) \<longrightarrow>
        content inp = trim (messageText s) \<and> content inp \<noteq> []
        \<and> param_id s = Some (event_id inp) \<and> currentUserId s = Some (user_id inp))
   \<and> (trim (messageText s) \<noteq> [] \<and> truthy (currentUserId s) \<and> truthy (param_id s) \<longrightarrow>
        new_actions s (handleSendMessage s)
          = [CallCreateMessage
               \<lparr>event_id = string_of (param_id s), user_id = string_of (currentUserId s),
                content = trim (messageText s)\<rparr>])"
proof -
  let ?guard = "trim (messageText s) = [] \<or> \<not> truthy (currentUserId s) \<or> \<not> truthy (param_id s)"
  have same: "s\<lparr>trace := trace s\<rparr> = s" by (cases s) simp
  have blocked: "new_actions s (handleSendMessage s)
      = (if \<not> truthy (currentUserId s) then [ToastError must_sign_in, Navigate ''/login''] else [])"
    "(handleSendMessage s)\<lparr>trace := trace s\<rparr> = s" if ?guard
    using that same by (auto simp: handleSendMessage_def new_actions_def emit_def)
  have sent: "new_actions s (handleSendMessage s)
          = [CallCreateMessage
               \<lparr>event_id = string_of (param_id s), user_id = string_of (currentUserId s),
                content = trim (messageText s)\<rparr>]" if "\<not> ?guard"
    using that by (simp add: handleSendMessage_def new_actions_def emit_def)
  have a: "(\<forall>inp. CallCreateMessage inp \<notin> set (new_actions s (handleSendMessage s)))
      \<and> (handleSendMessage s)\<lparr>trace := trace s\<rparr> = s" if ?guard
    using blocked [OF that] by simp
  have b: "content inp = trim (messageText s) \<and> content inp \<noteq> []
        \<and> param_id s = Some (event_id inp) \<and> currentUserId s = Some (user_id inp)"
    if c: "CallCreateMessage inp \<in> set (new_actions s (handleSendMessage s))" for inp
  proof (cases ?guard)
    case True
    with a c show ?thesis by blast
  next
    case False
    then obtain i u where iu: "param_id s = Some i" "currentUserId s = Some u"
      by (cases "param_id s"; cases "currentUserId s") simp_all
    from c sent [OF False] have "inp = \<lparr>event_id = i, user_id = u, content = trim (messageText s)\<rparr>"
      by (simp add: iu)
    with False iu show ?thesis by simp
  qed
  have c: "new_actions s (handleSendMessage s)
          = [CallCreateMessage
               \<lparr>event_id = string_of (param_id s), user_id = string_of (currentUserId s),
                content = trim (messageText s)\<rparr>]"
    if "trim (messageText s) \<noteq> [] \<and> truthy (currentUserId s) \<and> truthy (param_id s)"
    using that sent by blast
  from a b c show ?thesis by blast
qed

theorem send_message_guard_witness:
  "trim (messageText blank_view) = []
   \<and> new_actions blank_view (handleSendMessage blank_view) = []
   \<and> (handleSendMessage blank_view)\<lparr>trace := trace blank_view\<rparr> = blank_view
   \<and> trim (messageText typing_view) \<noteq> [] \<and> truthy (currentUserId typing_view)
   \<and> truthy (param_id typing_view)
   \<and> new_actions typing_view (handleSendMessage typing_view)
       = [CallCreateMessage \<lparr>event_id = ''e1'', user_id = ''u1'', content = ''hello''\<rparr>]
   \<and> CallCreateMessage hello_input \<in> set (new_actions typing_view (handleSendMessage typing_view))
   \<and> content hello_input = trim (messageText typing_view)"
proof -
  have h1: "trim (messageText blank_view) = []"
    by (simp add: blank_view_cells trim_samples)
  have h2: "trim (messageText typing_view) \<noteq> [] \<and> truthy (currentUserId typing_view)
      \<and> truthy (param_id typing_view)"
    by (simp add: typing_view_cells trim_samples)
  from send_message_guard [of blank_view] h1
  have a: "(\<forall>inp. CallCreateMessage inp \<notin> set (new_actions blank_view (handleSendMessage blank_view)))"
    and a': "(handleSendMessage blank_view)\<lparr>trace := trace blank_view\<rparr> = blank_view"
    by blast+
  have n: "new_actions blank_view (handleSendMessage blank_view) = []"
    by (simp add: new_actions_def handleSendMessage_def blank_view_cells trim_samples)
  from send_message_guard [of typing_view] h2
  have b: "new_actions typing_view (handleSendMessage typing_view)
      = [CallCreateMessage
           \<lparr>event_id = string_of (param_id typing_view),
            user_id = string_of (currentUserId typing_view),
            content = trim (messageText typing_view)\<rparr>]"
    by blast
  have b': "new_actions typing_view (handleSendMessage typing_view)
       = [CallCreateMessage \<lparr>event_id = ''e1'', user_id = ''u1'', content = ''hello''\<rparr>]"
    unfolding b by (simp add: typing_view_cells trim_samples)
  have m: "CallCreateMessage hello_input
      \<in> set (new_actions typing_view (handleSendMessage typing_view))"
    unfolding b' by (simp add: hello_input_def)
  from send_message_guard [of typing_view] m
  have c: "content hello_input = trim (messageText typing_view)"
    by blast
  from h1 n a' h2 b' m c show ?thesis by blast
qed

text \<open>
  C10. Whenever \<open>onSubmit\<close> calls \<open>createEvent\<close>, the description it passes is never
  the empty string: an empty or absent description is passed as null, any other as it
  is. The date it passes is the ISO string that the submitted date converts to; when
  the submitted date does not convert, no call is made. The same holds for any call made
  through \<open>handleSubmit\<close>.
\<close>

theorem create_event_input:
  "(\<forall>inp. CallCreateEvent inp \<in> set (onSubmit toISO values) \<longrightarrow>
       description inp \<noteq> Some []
       \<and> (description values = Some [] \<or> description values = None \<longrightarrow> description inp = None)
       \<and> (\<forall>d. description values = Some d \<and> d \<noteq> [] \<longrightarrow> description inp = Some d)
       \<and> toISO (date values) = Some (date inp)
       \<and> title inp = title values \<and> location inp = location values)
   \<and> (description values = Some [] \<and> toISO (date values) = Some dateValue \<longrightarrow>
       onSubmit toISO values
         = [CallCreateEvent \<lparr>title = title values, description = None, date = dateValue,
                             location = location values\<rparr>])
   \<and> (toISO (date values) = None \<longrightarrow>
       (\<forall>inp. CallCreateEvent inp \<notin> set (onSubmit toISO values)))
   \<and> (\<forall>as inp. handleSubmit toISO values = Inr as \<and> CallCreateEvent inp \<in> set as \<longrightarrow>
       description inp \<noteq> Some [] \<and> toISO (date values) = Some (date inp))"
proof -
  have a: "description inp \<noteq> Some []
       \<and> (description values = Some [] \<or> description values = None \<longrightarrow> description inp = None)
       \<and> (\<forall>d. description values = Some d \<and> d \<noteq> [] \<longrightarrow> description inp = Some d)
       \<and> toISO (date values) = Some (date inp)
       \<and> title inp = title values \<and> location inp = location values"
    if "CallCreateEvent inp \<in> set (onSubmit toISO values)" for inp
    using that
    by (cases "toISO (date values)"; cases "description values")
       (auto simp: onSubmit_def)
  have b: "onSubmit toISO values
         = [CallCreateEvent \<lparr>title = title values, description = None, date = dateValue,
                             location = location values\<rparr>]"
    if "description values = Some []" "toISO (date values) = Some dateValue"
    using that by (simp add: onSubmit_def)
  have c: "\<forall>inp. CallCreateEvent inp \<notin> set (onSubmit toISO values)"
    if "toISO (date values) = None"
    using that by (simp add: onSubmit_def)
  have d: "description inp \<noteq> Some [] \<and> toISO (date values) = Some (date inp)"
    if "handleSubmit toISO values = Inr as" "CallCreateEvent inp \<in> set as" for as inp
  proof -
    from that(1) have "as = onSubmit toISO values"
      by (simp add: handleSubmit_def split: list.splits)
    with that(2) a show ?thesis by blast
  qed
  from a b c d show ?thesis by blast
qed

theorem create_event_input_witness:
  "description sample_values = Some []
   \<and> sample_toISO (date sample_values) = Some ''2025-01-01T18:00:00.000Z''
   \<and> onSubmit sample_toISO sample_values
       = [CallCreateEvent \<lparr>title = ''Launch'', description = None,
            date = ''2025-01-01T18:00:00.000Z'', location = ''HQ''\<rparr>]
   \<and> handleSubmit sample_toISO sample_values = Inr (onSubmit sample_toISO sample_values)
   \<and> sample_toISO (date (sample_values\<lparr>date := ''tomorrow''\<rparr>)) = None
   \<and> onSubmit sample_toISO (sample_values\<lparr>date := ''tomorrow''\<rparr>)
       = [ConsoleError ''Error al crear evento:'',
          ToastError ''Error inesperado al crear el evento'']
   \<and> (\<forall>inp. CallCreateEvent inp
        \<notin> set (onSubmit sample_toISO (sample_values\<lparr>date := ''tomorrow''\<rparr>)))"
proof -
  have h: "description sample_values = Some []"
    "sample_toISO (date sample_values) = Some ''2025-01-01T18:00:00.000Z''"
    by (simp_all add: sample_values_def sample_toISO_def)
  have v: "title sample_values = ''Launch''" "location sample_values = ''HQ''"
    by (simp_all add: sample_values_def)
  from create_event_input [of sample_toISO sample_values "''2025-01-01T18:00:00.000Z''"] h
  have a: "onSubmit sample_toISO sample_values
      = [CallCreateEvent \<lparr>title = title sample_values, description = None,
            date = ''2025-01-01T18:00:00.000Z'', location = location sample_values\<rparr>]"
    by blast
  have s: "handleSubmit sample_toISO sample_values = Inr (onSubmit sample_toISO sample_values)"
    by (simp add: handleSubmit_def eventSchema_def sample_values_def)
  have n: "sample_toISO (date (sample_values\<lparr>date := ''tomorrow''\<rparr>)) = None"
    by (simp add: sample_toISO_def)
  have c: "onSubmit sample_toISO (sample_values\<lparr>date := ''tomorrow''\<rparr>)
       = [ConsoleError ''Error al crear evento:'',
          ToastError ''Error inesperado al crear el evento'']"
    by (simp add: onSubmit_def sample_toISO_def)
  from create_event_input [of sample_toISO "sample_values\<lparr>date := ''tomorrow''\<rparr>"] n
  have d: "\<forall>inp. CallCreateEvent inp
      \<notin> set (onSubmit sample_toISO (sample_values\<lparr>date := ''tomorrow''\<rparr>))"
    by blast
  from h a [unfolded v] s n c d show ?thesis by blast
qed

end
